theory Spec2Isabelle
  imports Complex_Main
begin

section \<open>Values, errors and numpy arithmetic\<close>

text \<open>
  Python exceptions are values of the type \<open>error\<close>; a function that can raise returns
  \<open>error + 'a\<close>, with \<open>Inl\<close> for the exception. \<open>LinAlgError\<close> stands for whatever the
  regularized inversion raises on a singular system.
\<close>

datatype error =
    TypeError string
  | ValueError string
  | NameError string
  | AttributeError string
  | IndexError string
  | LinAlgError string

text \<open>
  A numpy float is a real number or one of the three special values. Rounding, overflow
  and the sign of zero are not modelled: a finite double is the real it denotes.
\<close>

datatype npfloat = Fin real | PInf | NInf | NaN

fun fneg :: "npfloat \<Rightarrow> npfloat" where
  "fneg (Fin a) = Fin (- a)"
| "fneg PInf = NInf"
| "fneg NInf = PInf"
| "fneg NaN = NaN"

fun fadd :: "npfloat \<Rightarrow> npfloat \<Rightarrow> npfloat" where
  "fadd (Fin a) (Fin b) = Fin (a + b)"
| "fadd NaN y = NaN"
| "fadd x NaN = NaN"
| "fadd PInf NInf = NaN"
| "fadd NInf PInf = NaN"
| "fadd PInf y = PInf"
| "fadd x PInf = PInf"
| "fadd NInf y = NInf"
| "fadd x NInf = NInf"

definition fsub :: "npfloat \<Rightarrow> npfloat \<Rightarrow> npfloat" where
  "fsub x y = fadd x (fneg y)"

definition fsign :: "npfloat \<Rightarrow> int" where
  "fsign x = (case x of Fin a \<Rightarrow> (if a < 0 then - 1 else if a = 0 then 0 else 1)
                | PInf \<Rightarrow> 1 | NInf \<Rightarrow> - 1 | NaN \<Rightarrow> 0)"

definition signed_inf :: "int \<Rightarrow> npfloat" where
  "signed_inf s = (if s < 0 then NInf else if s = 0 then NaN else PInf)"

fun fmul :: "npfloat \<Rightarrow> npfloat \<Rightarrow> npfloat" where
  "fmul (Fin a) (Fin b) = Fin (a * b)"
| "fmul NaN y = NaN"
| "fmul x NaN = NaN"
| "fmul x y = signed_inf (fsign x * fsign y)"

fun fdiv :: "npfloat \<Rightarrow> npfloat \<Rightarrow> npfloat" where
  "fdiv (Fin a) (Fin b) = (if b = 0 then signed_inf (fsign (Fin a)) else Fin (a / b))"
| "fdiv NaN y = NaN"
| "fdiv x NaN = NaN"
| "fdiv (Fin a) y = Fin 0"
| "fdiv x (Fin b) = signed_inf (fsign x * (if b < 0 then - 1 else 1))"
| "fdiv x y = NaN"

fun fabs :: "npfloat \<Rightarrow> npfloat" where
  "fabs (Fin a) = Fin \<bar>a\<bar>"
| "fabs PInf = PInf"
| "fabs NInf = PInf"
| "fabs NaN = NaN"

text \<open>\<open>np.log10\<close>: \<open>-inf\<close> at zero and \<open>nan\<close> below it (numpy warns, it does not raise).\<close>

fun np_log10 :: "npfloat \<Rightarrow> npfloat" where
  "np_log10 (Fin a) = (if 0 < a then Fin (log 10 a) else if a = 0 then NInf else NaN)"
| "np_log10 PInf = PInf"
| "np_log10 NInf = NaN"
| "np_log10 NaN = NaN"

text \<open>\<open>10**x\<close> on a float.\<close>

fun pow10 :: "npfloat \<Rightarrow> npfloat" where
  "pow10 (Fin a) = Fin (10 powr a)"
| "pow10 PInf = PInf"
| "pow10 NInf = Fin 0"
| "pow10 NaN = NaN"

text \<open>\<open>x**2\<close> and \<open>x**1.5\<close>; the latter is \<open>nan\<close> on a negative base.\<close>

definition fsquare :: "npfloat \<Rightarrow> npfloat" where
  "fsquare x = fmul x x"

fun fpow15 :: "npfloat \<Rightarrow> npfloat" where
  "fpow15 (Fin a) = (if a < 0 then NaN else if a = 0 then Fin 0 else Fin (a powr (3 / 2)))"
| "fpow15 PInf = PInf"
| "fpow15 NInf = NaN"
| "fpow15 NaN = NaN"

text \<open>
  The dynamically typed values the functions receive. \<open>PyObj\<close> is any other object
  (a string, \<open>None\<close>, a tuple, a class instance), named by its class.
\<close>

datatype pyval =
    PyInt int
  | PyFloat npfloat
  | PyList "pyval list"
  | NdArray "pyval list"
  | PyObj string

fun is_int :: "pyval \<Rightarrow> bool" where
  "is_int (PyInt i) = True"
| "is_int v = False"

fun is_int_or_float :: "pyval \<Rightarrow> bool" where
  "is_int_or_float (PyInt i) = True"
| "is_int_or_float (PyFloat x) = True"
| "is_int_or_float v = False"

fun is_list_or_ndarray :: "pyval \<Rightarrow> bool" where
  "is_list_or_ndarray (PyList xs) = True"
| "is_list_or_ndarray (NdArray xs) = True"
| "is_list_or_ndarray v = False"

fun to_float :: "pyval \<Rightarrow> error + npfloat" where
  "to_float (PyInt i) = Inr (Fin (of_int i))"
| "to_float (PyFloat x) = Inr x"
| "to_float v = Inl (TypeError ''a number is required'')"

fun py_len :: "pyval \<Rightarrow> error + nat" where
  "py_len (PyList xs) = Inr (length xs)"
| "py_len (NdArray xs) = Inr (length xs)"
| "py_len v = Inl (TypeError ''object has no len()'')"

text \<open>\<open>np.ones(n)\<close> refuses a negative length.\<close>

definition np_ones :: "int \<Rightarrow> error + npfloat list" where
  "np_ones n = (if n < 0 then Inl (ValueError ''negative dimensions are not allowed'')
                else Inr (replicate (nat n) (Fin 1)))"

section \<open>timedata_helper: \<open>_assert_lent\<close>\<close>

text \<open>
  \<open>_assert_lent(array, nt)\<close>: a scalar is multiplied into \<open>np.ones(nt)\<close>, a list or an
  array must have length \<open>nt\<close> and is returned as an array, anything else is a
  \<open>TypeError\<close>.
\<close>

fun assert_lent :: "pyval \<Rightarrow> pyval \<Rightarrow> error + pyval" where
  "assert_lent array (PyInt nt) =
     (case array of
        PyInt i \<Rightarrow>
          (case np_ones nt of Inl e \<Rightarrow> Inl e
           | Inr os \<Rightarrow> Inr (NdArray (map (\<lambda>x. PyFloat (fmul (Fin (of_int i)) x)) os)))
      | PyFloat a \<Rightarrow>
          (case np_ones nt of Inl e \<Rightarrow> Inl e
           | Inr os \<Rightarrow> Inr (NdArray (map (\<lambda>x. PyFloat (fmul a x)) os)))
      | PyList xs \<Rightarrow>
          (if int (length xs) \<noteq> nt then Inl (ValueError ''array must have length nt'')
           else Inr (NdArray xs))
      | NdArray xs \<Rightarrow>
          (if int (length xs) \<noteq> nt then Inl (ValueError ''array must have length nt'')
           else Inr (NdArray xs))
      | PyObj c \<Rightarrow> Inl (TypeError ''array bust be scalar, array-like, or None''))"
| "assert_lent array nt = Inl (TypeError ''nt must be int'')"

section \<open>model: \<open>Model.__init__\<close> and \<open>Daem.__init__\<close>\<close>

record model =
  A :: pyval
  model_type :: string
  nt :: nat
  t :: pyval
  T :: pyval

text \<open>
  \<open>Model.__init__\<close> calls \<open>assert_len\<close> of \<open>rampedpyrox.core.core_functions\<close>, a module
  that is not among the sources; the helper is the argument \<open>assert_len_p\<close>, and the
  helper of the same contract that is among them is \<open>assert_lent\<close>.
\<close>

definition Model_init ::
  "(pyval \<Rightarrow> pyval \<Rightarrow> error + pyval) \<Rightarrow> pyval \<Rightarrow> string \<Rightarrow> pyval \<Rightarrow> pyval \<Rightarrow> error + model" where
  "Model_init assert_len_p A0 mt t0 T0 =
     (case py_len t0 of Inl e \<Rightarrow> Inl e
      | Inr n \<Rightarrow>
     (case assert_len_p t0 (PyInt (int n)) of Inl e \<Rightarrow> Inl e
      | Inr t1 \<Rightarrow>
     (case assert_len_p T0 (PyInt (int n)) of Inl e \<Rightarrow> Inl e
      | Inr T1 \<Rightarrow>
     (case assert_len_p A0 (PyInt (int n)) of Inl e \<Rightarrow> Inl e
      | Inr A1 \<Rightarrow>
        Inr \<lparr>A = A1, model_type = mt, nt = n, t = t1, T = T1\<rparr>))))"

text \<open>
  The names bound at module level in \<open>model.py\<close>: its imports and its classes. Reading a
  global name that is not bound there raises \<open>NameError\<close> (the builtins, which are found
  after the module's names, are not needed here: \<open>warnings\<close> is not one of them).
\<close>

definition model_globals :: "string list" where
  "model_globals = [''plt'', ''np'', ''assert_len'', ''derivatize'', ''round_to_sigfig'',
     ''_calc_f'', ''_rpo_calc_A'', ''Model'', ''LaplaceTransform'', ''Daem'']"

definition lookup_global :: "string \<Rightarrow> error + unit" where
  "lookup_global name =
     (if name \<in> set model_globals then Inr ()
      else Inl (NameError name))"

text \<open>
  \<open>warnings.warn(msg)\<close>: the name \<open>warnings\<close> is read first; when it is bound the
  message joins the warnings issued so far.
\<close>

definition warnings_warn :: "string \<Rightarrow> string list \<Rightarrow> error + string list" where
  "warnings_warn msg ws =
     (case lookup_global ''warnings'' of Inl e \<Rightarrow> Inl e
      | Inr u \<Rightarrow> Inr (ws @ [msg]))"

record daem = model +
  log10k0 :: pyval
  Ea :: pyval
  nEa :: nat

text \<open>
  \<open>Daem.__init__\<close>. \<open>_rpo_calc_A\<close> of \<open>model_helper\<close> is not among the sources and is the
  argument \<open>rpo_calc_A_p\<close>. The result carries the warnings issued.
\<close>

definition Daem_init ::
  "(pyval \<Rightarrow> pyval \<Rightarrow> pyval \<Rightarrow> pyval \<Rightarrow> error + pyval) \<Rightarrow>
   (pyval \<Rightarrow> pyval \<Rightarrow> error + pyval) \<Rightarrow>
   pyval \<Rightarrow> pyval \<Rightarrow> pyval \<Rightarrow> pyval \<Rightarrow> error + (daem \<times> string list)" where
  "Daem_init rpo_calc_A_p assert_len_p Ea0 k0 t0 T0 =
     (case (if is_int_or_float T0
            then warnings_warn ''Attempting to use isothermal data to create DAEM model!'' []
            else Inr []) of Inl e \<Rightarrow> Inl e
      | Inr ws \<Rightarrow>
     (case rpo_calc_A_p Ea0 k0 t0 T0 of Inl e \<Rightarrow> Inl e
      | Inr A0 \<Rightarrow>
     (case Model_init assert_len_p A0 ''Daem'' t0 T0 of Inl e \<Rightarrow> Inl e
      | Inr m \<Rightarrow>
     (case py_len Ea0 of Inl e \<Rightarrow> Inl e
      | Inr n \<Rightarrow>
     (case assert_len_p Ea0 (PyInt (int n)) of Inl e \<Rightarrow> Inl e
      | Inr Ea1 \<Rightarrow>
        Inr (\<lparr>A = A m, model_type = model_type m, nt = nt m, t = t m, T = T m,
              log10k0 = k0, Ea = Ea1, nEa = n\<rparr>, ws))))))"

section \<open>numpy functions used by the L-curve\<close>

text \<open>
  \<open>np.linspace(start, stop, num)\<close> on scalars: \<open>num\<close> must be an index (an int) and
  not negative; the points are \<open>start + i * step\<close> and the last one is \<open>stop\<close> itself.
\<close>

definition linspace_floats :: "npfloat \<Rightarrow> npfloat \<Rightarrow> nat \<Rightarrow> npfloat list" where
  "linspace_floats start stop n =
     (if n = 0 then []
      else if n = 1 then [fadd (fmul (Fin 0) (fsub stop start)) start]
      else map (\<lambda>i. fadd (fmul (Fin (real i)) (fdiv (fsub stop start) (Fin (real (n - 1))))) start)
             [0..<n - 1] @ [stop])"

definition np_linspace :: "pyval \<Rightarrow> pyval \<Rightarrow> pyval \<Rightarrow> error + npfloat list" where
  "np_linspace start stop num =
     (case num of
        PyInt n \<Rightarrow>
          (if n < 0 then Inl (ValueError ''Number of samples must be non-negative'')
           else (case to_float start of Inl e \<Rightarrow> Inl e
                 | Inr a \<Rightarrow>
                (case to_float stop of Inl e \<Rightarrow> Inl e
                 | Inr b \<Rightarrow> Inr (linspace_floats a b (nat n)))))
      | _ \<Rightarrow> Inl (TypeError ''object cannot be interpreted as an integer''))"

text \<open>The comparison \<open>x <= y\<close> of two floats: false as soon as one of them is \<open>nan\<close>.\<close>

fun fle :: "npfloat \<Rightarrow> npfloat \<Rightarrow> bool" where
  "fle NaN y = False"
| "fle x NaN = False"
| "fle NInf y = True"
| "fle x PInf = True"
| "fle (Fin a) (Fin b) = (a \<le> b)"
| "fle x y = False"

text \<open>
  \<open>np.argmax\<close> on a float array, as numpy's loop runs it: the running maximum \<open>mp\<close> at
  index \<open>mi\<close> is replaced by an element that is not \<open><=\<close> to it, and the loop stops at
  a \<open>nan\<close>. An empty array is a \<open>ValueError\<close>.
\<close>

fun argmax_loop :: "npfloat \<Rightarrow> nat \<Rightarrow> nat \<Rightarrow> npfloat list \<Rightarrow> nat" where
  "argmax_loop mp mi i [] = mi"
| "argmax_loop mp mi i (x # xs) =
     (if \<not> fle x mp then (if x = NaN then i else argmax_loop x i (Suc i) xs)
      else argmax_loop mp mi (Suc i) xs)"

fun np_argmax :: "npfloat list \<Rightarrow> error + nat" where
  "np_argmax [] = Inl (ValueError ''attempt to get argmax of an empty sequence'')"
| "np_argmax (x # xs) = Inr (if x = NaN then 0 else argmax_loop x 0 1 xs)"


text \<open>An elementwise binary operation on two one-dimensional arrays, with broadcasting.\<close>

definition np_broadcast2 ::
  "(npfloat \<Rightarrow> npfloat \<Rightarrow> npfloat) \<Rightarrow> npfloat list \<Rightarrow> npfloat list \<Rightarrow> error + npfloat list" where
  "np_broadcast2 f xs ys =
     (if length xs = length ys then Inr (map2 f xs ys)
      else if length xs = 1 then Inr (map (f (hd xs)) ys)
      else if length ys = 1 then Inr (map (\<lambda>x. f x (hd ys)) xs)
      else Inl (ValueError ''operands could not be broadcast together''))"

section \<open>model: \<open>Model.calc_L_curve\<close>\<close>

text \<open>
  The calls \<open>calc_L_curve\<close> makes to the helpers it imports are logged in the order
  they happen, so that what is evaluated, and when, can be stated.
\<close>

datatype event =
    CalcF npfloat
  | Round "npfloat list" nat
  | Deriv "npfloat list" "npfloat list"

text \<open>\<open>log_om_vec = np.linspace(np.log10(om_min), np.log10(om_max), nOm)\<close> and
  \<open>om_vec = 10**log_om_vec\<close>.\<close>

definition om_vec_of :: "pyval \<Rightarrow> pyval \<Rightarrow> pyval \<Rightarrow> error + npfloat list" where
  "om_vec_of nOm om_max om_min =
     (case to_float om_min of Inl e \<Rightarrow> Inl e
      | Inr lo \<Rightarrow>
     (case to_float om_max of Inl e \<Rightarrow> Inl e
      | Inr hi \<Rightarrow>
     (case np_linspace (PyFloat (np_log10 lo)) (PyFloat (np_log10 hi)) nOm of Inl e \<Rightarrow> Inl e
      | Inr log_om_vec \<Rightarrow> Inr (map pow10 log_om_vec))))"

text \<open>
  The loop over \<open>om_vec\<close>: one call of \<open>_calc_f\<close> for each omega, in order; the fitted
  distribution is dropped, the two norms are appended. An exception of \<open>_calc_f\<close> ends
  the loop: nothing in it catches one.
\<close>

fun sweep ::
  "(npfloat \<Rightarrow> error + ('f \<times> npfloat \<times> npfloat)) \<Rightarrow> npfloat list \<Rightarrow>
   event list \<Rightarrow> npfloat list \<Rightarrow> npfloat list \<Rightarrow>
   event list \<times> (error + (npfloat list \<times> npfloat list))" where
  "sweep cf [] evs res_vec rgh_vec = (evs, Inr (res_vec, rgh_vec))"
| "sweep cf (w # ws) evs res_vec rgh_vec =
     (case cf w of
        Inl e \<Rightarrow> (evs @ [CalcF w], Inl e)
      | Inr (f, res, rgh) \<Rightarrow> sweep cf ws (evs @ [CalcF w]) (res_vec @ [res]) (rgh_vec @ [rgh]))"

text \<open>\<open>k = np.abs(dy2d2x)/(1+dydx**2)**1.5\<close>.\<close>

definition curvature :: "npfloat list \<Rightarrow> npfloat list \<Rightarrow> error + npfloat list" where
  "curvature dy2d2x dydx =
     np_broadcast2 fdiv (map fabs dy2d2x) (map (\<lambda>d. fpow15 (fadd (Fin 1) (fsquare d))) dydx)"

text \<open>
  Lines 159 to 174: the logs, the rounding, the two derivatives, the curvature and the
  index of its maximum. \<open>round_to_sigfig\<close> and \<open>derivatize\<close> of
  \<open>rampedpyrox.core.core_functions\<close> are not among the sources and are the arguments
  \<open>round_p\<close> and \<open>deriv_p\<close>. The result is the index \<open>i\<close> with the rounded vectors.
\<close>

definition corner ::
  "(npfloat list \<Rightarrow> nat \<Rightarrow> error + npfloat list) \<Rightarrow>
   (npfloat list \<Rightarrow> npfloat list \<Rightarrow> error + npfloat list) \<Rightarrow>
   npfloat list \<Rightarrow> npfloat list \<Rightarrow>
   event list \<times> (error + (nat \<times> npfloat list \<times> npfloat list))" where
  "corner round_p deriv_p res_vec rgh_vec =
     (let lres = map np_log10 res_vec; lrgh = map np_log10 rgh_vec in
      case round_p lres 6 of
        Inl e \<Rightarrow> ([Round lres 6], Inl e)
      | Inr res6 \<Rightarrow>
     (case round_p lrgh 6 of
        Inl e \<Rightarrow> ([Round lres 6, Round lrgh 6], Inl e)
      | Inr rgh6 \<Rightarrow>
     (case deriv_p rgh6 res6 of
        Inl e \<Rightarrow> ([Round lres 6, Round lrgh 6, Deriv rgh6 res6], Inl e)
      | Inr dydx \<Rightarrow>
       ([Round lres 6, Round lrgh 6, Deriv rgh6 res6, Deriv dydx res6],
        (case deriv_p dydx res6 of
           Inl e \<Rightarrow> Inl e
         | Inr dy2d2x \<Rightarrow>
        (case curvature dy2d2x dydx of
           Inl e \<Rightarrow> Inl e
         | Inr k \<Rightarrow>
        (case np_argmax k of
           Inl e \<Rightarrow> Inl e
         | Inr i \<Rightarrow> Inr (i, res6, rgh6))))))))"

text \<open>What \<open>calc_L_curve\<close> returns: \<open>om_best\<close>, with the axis when \<open>plot\<close> is set.\<close>

datatype 'ax lcurve = OmBest npfloat | OmBestAx npfloat 'ax


text \<open>
  \<open>calc_L_curve(self, timedata, ax, nOm, om_max, om_min, plot)\<close>. \<open>_calc_f\<close> of
  \<open>model_helper\<close> is not among the sources and is the argument \<open>calc_f_p\<close>; the drawing
  of the curve on the axis (matplotlib) is the argument \<open>draw_p\<close>.
\<close>

definition calc_L_curve ::
  "('m \<Rightarrow> 'td \<Rightarrow> npfloat \<Rightarrow> error + ('f \<times> npfloat \<times> npfloat)) \<Rightarrow>
   (npfloat list \<Rightarrow> nat \<Rightarrow> error + npfloat list) \<Rightarrow>
   (npfloat list \<Rightarrow> npfloat list \<Rightarrow> error + npfloat list) \<Rightarrow>
   ('ax option \<Rightarrow> npfloat list \<Rightarrow> npfloat list \<Rightarrow> nat \<Rightarrow> npfloat \<Rightarrow> error + 'ax) \<Rightarrow>
   'm \<Rightarrow> 'td \<Rightarrow> 'ax option \<Rightarrow> pyval \<Rightarrow> pyval \<Rightarrow> pyval \<Rightarrow> bool \<Rightarrow>
   event list \<times> (error + 'ax lcurve)" where
  "calc_L_curve calc_f_p round_p deriv_p draw_p self timedata ax nOm om_max om_min plot =
     (if \<not> is_int_or_float om_max then ([], Inl (TypeError ''om_max must be float or int''))
      else if \<not> is_int_or_float om_min then ([], Inl (TypeError ''om_min must be float or int''))
      else if \<not> is_int nOm then ([], Inl (TypeError ''nOm must be int''))
      else
        (case om_vec_of nOm om_max om_min of
           Inl e \<Rightarrow> ([], Inl e)
         | Inr om_vec \<Rightarrow>
        (case sweep (calc_f_p self timedata) om_vec [] [] [] of
           (evs, Inl e) \<Rightarrow> (evs, Inl e)
         | (evs, Inr (res_vec, rgh_vec)) \<Rightarrow>
        (case corner round_p deriv_p res_vec rgh_vec of
           (evs', Inl e) \<Rightarrow> (evs @ evs', Inl e)
         | (evs', Inr (i, res6, rgh6)) \<Rightarrow>
           (evs @ evs',
            (if \<not> i < length om_vec then Inl (IndexError ''index out of bounds'')
             else if plot then
               (case draw_p ax res6 rgh6 i (om_vec ! i) of
                  Inl e \<Rightarrow> Inl e
                | Inr ax' \<Rightarrow> Inr (OmBestAx (om_vec ! i) ax'))
             else Inr (OmBest (om_vec ! i))))))))"

section \<open>model: \<open>Daem.from_timedata\<close> and \<open>Daem.from_ratedata\<close>\<close>

text \<open>
  A companion object: the classes it is an instance of (its own and their bases) and
  its attributes.
\<close>

record pyobj =
  obj_classes :: "string list"
  obj_attrs :: "(string \<times> pyval) list"

definition isinstance_of :: "pyobj \<Rightarrow> string \<Rightarrow> bool" where
  "isinstance_of ob c = (c \<in> set (obj_classes ob))"

definition getattr_of :: "pyobj \<Rightarrow> string \<Rightarrow> error + pyval" where
  "getattr_of ob name =
     (case map_of (obj_attrs ob) name of
        None \<Rightarrow> Inl (AttributeError name)
      | Some v \<Rightarrow> Inr v)"

definition from_timedata ::
  "(pyval \<Rightarrow> pyval \<Rightarrow> pyval \<Rightarrow> pyval \<Rightarrow> error + pyval) \<Rightarrow>
   (pyval \<Rightarrow> pyval \<Rightarrow> error + pyval) \<Rightarrow>
   pyobj \<Rightarrow> pyval \<Rightarrow> pyval \<Rightarrow> pyval \<Rightarrow> pyval \<Rightarrow> error + (daem \<times> string list)" where
  "from_timedata rpo_calc_A_p assert_len_p timedata Ea_max Ea_min k0 nEa0 =
     (case (if \<not> isinstance_of timedata ''RpoThermogram''
            then warnings_warn ''Attempting to generate Daem model using a timedata instance'' []
            else Inr []) of Inl e \<Rightarrow> Inl e
      | Inr ws \<Rightarrow>
     (case np_linspace Ea_min Ea_max nEa0 of Inl e \<Rightarrow> Inl e
      | Inr Ea0 \<Rightarrow>
     (case getattr_of timedata ''t'' of Inl e \<Rightarrow> Inl e
      | Inr t0 \<Rightarrow>
     (case getattr_of timedata ''T'' of Inl e \<Rightarrow> Inl e
      | Inr T0 \<Rightarrow>
     (case Daem_init rpo_calc_A_p assert_len_p (NdArray (map PyFloat Ea0)) k0 t0 T0 of
        Inl e \<Rightarrow> Inl e
      | Inr (d, ws') \<Rightarrow> Inr (d, ws @ ws'))))))"

definition from_ratedata ::
  "(pyval \<Rightarrow> pyval \<Rightarrow> pyval \<Rightarrow> pyval \<Rightarrow> error + pyval) \<Rightarrow>
   (pyval \<Rightarrow> pyval \<Rightarrow> error + pyval) \<Rightarrow>
   pyobj \<Rightarrow> pyval \<Rightarrow> pyval \<Rightarrow> pyval \<Rightarrow> pyval \<Rightarrow> pyval \<Rightarrow> pyval \<Rightarrow>
   error + (daem \<times> string list)" where
  "from_ratedata rpo_calc_A_p assert_len_p ratedata beta k0 nt0 t00 T00 tf =
     (if \<not> isinstance_of ratedata ''EnergyComplex''
      then Inl (TypeError ''Attempting to generate Daem model using a ratedata instance'')
      else
     (case getattr_of ratedata ''Ea'' of Inl e \<Rightarrow> Inl e
      | Inr Ea0 \<Rightarrow>
     (case np_linspace t00 tf nt0 of Inl e \<Rightarrow> Inl e
      | Inr ts \<Rightarrow>
     (case to_float beta of Inl e \<Rightarrow> Inl e
      | Inr b \<Rightarrow>
     (case to_float T00 of Inl e \<Rightarrow> Inl e
      | Inr T0 \<Rightarrow>
        Daem_init rpo_calc_A_p assert_len_p Ea0 k0
          (NdArray (map PyFloat ts))
          (NdArray (map (\<lambda>x. PyFloat (fadd T0 (fmul b x))) ts)))))))"

section \<open>timedata_helper: \<open>_derivatize\<close>\<close>

text \<open>
  A list or an array of numbers as a vector of floats; \<open>None\<close> for anything else
  (arrays of more than one dimension are outside the model).
\<close>

fun as_vector :: "pyval \<Rightarrow> npfloat list option" where
  "as_vector (PyList xs) =
     (if list_all is_int_or_float xs
      then Some (map (\<lambda>v. case v of PyInt i \<Rightarrow> Fin (of_int i) | PyFloat x \<Rightarrow> x | _ \<Rightarrow> NaN) xs)
      else None)"
| "as_vector (NdArray xs) =
     (if list_all is_int_or_float xs
      then Some (map (\<lambda>v. case v of PyInt i \<Rightarrow> Fin (of_int i) | PyFloat x \<Rightarrow> x | _ \<Rightarrow> NaN) xs)
      else None)"
| "as_vector v = None"

text \<open>
  \<open>np.gradient\<close> of a vector with unit spacing: one-sided differences at the two ends,
  central differences inside; fewer than two elements are a \<open>ValueError\<close>.
\<close>

definition np_gradient :: "npfloat list \<Rightarrow> error + npfloat list" where
  "np_gradient xs =
     (let n = length xs in
      if n < 2 then Inl (ValueError ''Shape of array too small to calculate a numerical gradient'')
      else Inr (map (\<lambda>i. if i = 0 then fsub (xs ! 1) (xs ! 0)
                          else if i = n - 1 then fsub (xs ! (n - 1)) (xs ! (n - 2))
                          else fdiv (fsub (xs ! (i + 1)) (xs ! (i - 1))) (Fin 2))
                 [0..<n]))"

text \<open>Python's \<open>any\<close> on floats: a float is false exactly when it is zero.\<close>

definition py_any :: "npfloat list \<Rightarrow> bool" where
  "py_any xs = list_ex (\<lambda>x. x \<noteq> Fin 0) xs"

text \<open>
  \<open>_derivatize(num, denom)\<close>. The gradient of a scalar \<open>num\<close> is the empty sequence; a
  \<open>ValueError\<close> of the gradient of \<open>num\<close> is caught and replaced by zeros, one of the
  gradient of \<open>denom\<close> is not. The guard \<open>any(dd) <= 0\<close> compares the boolean \<open>any(dd)\<close>
  with zero.
\<close>

definition derivatize :: "pyval \<Rightarrow> pyval \<Rightarrow> error + npfloat list" where
  "derivatize num denom =
     (if \<not> (is_int_or_float num \<or> is_list_or_ndarray num)
      then Inl (TypeError ''num bust be scalar or array-like'')
      else if \<not> is_list_or_ndarray denom
      then Inl (TypeError ''denom bust be array-like'')
      else
        (case as_vector denom of
           None \<Rightarrow> Inl (TypeError ''denom is not a vector of numbers'')
         | Some ys \<Rightarrow>
        (case (if is_int_or_float num then Inr []
               else (case as_vector num of
                       None \<Rightarrow> Inl (TypeError ''num is not a vector of numbers'')
                     | Some xs \<Rightarrow>
                         (case np_gradient xs of
                            Inl (ValueError m) \<Rightarrow> Inr (replicate (length ys) (Fin 0))
                          | Inl e \<Rightarrow> Inl e
                          | Inr g \<Rightarrow> Inr g))) of
           Inl e \<Rightarrow> Inl e
         | Inr dn \<Rightarrow>
        (case np_gradient ys of
           Inl e \<Rightarrow> Inl e
         | Inr dd \<Rightarrow>
             if length dn \<noteq> length dd
             then Inl (ValueError ''num and denom arrays must have same length'')
             else if (of_bool (py_any dd) :: int) \<le> 0
             then Inr (replicate (length ys) (Fin 0))
             else Inr (map2 fdiv dn dd)))))"


section \<open>timedata_helper: \<open>_rpo_extract_tg\<close>\<close>

text \<open>
  A data frame: its columns by name and its index, a \<open>DatetimeIndex\<close> of timestamps
  (in seconds) or an index of another kind.
\<close>

datatype df_index = DatetimeIndex "int list" | OtherIndex

record dataframe =
  df_columns :: "(string \<times> npfloat list) list"
  df_index :: df_index

datatype file_arg = FilePath string | DataFrame dataframe | FileOther string

text \<open>Truth of a string: the empty string is false.\<close>

definition str_truthy :: "string \<Rightarrow> bool" where
  "str_truthy s = (s \<noteq> [])"

text \<open>
  \<open>'CO2_scaled' and 'temp' not in file.columns\<close>: \<open>not in\<close> binds tighter than \<open>and\<close>,
  so the condition is \<open>'CO2_scaled' and ('temp' not in file.columns)\<close>.
\<close>

definition columns_missing :: "dataframe \<Rightarrow> bool" where
  "columns_missing file =
     (if str_truthy ''CO2_scaled'' then ''temp'' \<notin> set (map fst (df_columns file))
      else str_truthy ''CO2_scaled'')"

text \<open>\<open>file.name\<close>: the column of that name, an \<open>AttributeError\<close> when there is none.\<close>

definition df_attr :: "dataframe \<Rightarrow> string \<Rightarrow> error + npfloat list" where
  "df_attr file name =
     (case map_of (df_columns file) name of
        None \<Rightarrow> Inl (AttributeError name)
      | Some c \<Rightarrow> Inr c)"

text \<open>
  \<open>_rpo_extract_tg(file, nt, err)\<close>. \<open>pd.read_csv\<close> is the argument \<open>read_csv_p\<close>. Lines
  184 to 207 (the sums, the grid of down-sampled times and scipy's interpolation) are
  the argument \<open>downsample_p\<close>, which receives \<open>secs\<close>, \<open>CO2\<close>, \<open>Temp\<close>, \<open>nt\<close> and \<open>err\<close>.
\<close>

definition rpo_extract_tg ::
  "(string \<Rightarrow> error + dataframe) \<Rightarrow>
   (int list \<Rightarrow> npfloat list \<Rightarrow> npfloat list \<Rightarrow> pyval \<Rightarrow> pyval \<Rightarrow> error + 'r) \<Rightarrow>
   file_arg \<Rightarrow> pyval \<Rightarrow> pyval \<Rightarrow> error + 'r" where
  "rpo_extract_tg read_csv_p downsample_p file nt0 err =
     (case (case file of
              FilePath p \<Rightarrow> read_csv_p p
            | DataFrame d \<Rightarrow> Inr d
            | FileOther c \<Rightarrow> Inl (TypeError ''file must be pd.DataFrame instance or path string'')) of
        Inl e \<Rightarrow> Inl e
      | Inr df \<Rightarrow>
          if columns_missing df
          then Inl (ValueError ''file must have CO2_scaled and temp columns'')
          else
            (case df_index df of
               OtherIndex \<Rightarrow> Inl (TypeError ''file index must be pd.DatetimeIndex instance'')
             | DatetimeIndex ts \<Rightarrow>
                 (case ts of
                    [] \<Rightarrow> Inl (IndexError ''index 0 is out of bounds'')
                  | t0 # rest \<Rightarrow>
                 (case df_attr df ''CO2_scaled'' of Inl e \<Rightarrow> Inl e
                  | Inr CO2 \<Rightarrow>
                 (case df_attr df ''temp'' of Inl e \<Rightarrow> Inl e
                  | Inr Temp \<Rightarrow>
                     downsample_p (map (\<lambda>x. (x - t0) mod 86400) ts) CO2 Temp nt0 err)))))"

section \<open>Default arguments and sample helpers\<close>


text \<open>
  Helpers to run the functions on concrete inputs. They stand for the functions that are
  arguments of the model and are used only where a theorem is evaluated at an example:
  an inversion that returns the two norms listed for an omega in a table and is singular
  at any other omega, with a sample table; a rounding that keeps its input; \<open>_derivatize\<close> on float vectors; a
  drawing that does nothing; a transform matrix of ones.
\<close>

definition calc_f_table ::
  "(npfloat \<times> npfloat \<times> npfloat) list \<Rightarrow> unit \<Rightarrow> unit \<Rightarrow> npfloat \<Rightarrow>
   error + (unit \<times> npfloat \<times> npfloat)" where
  "calc_f_table tbl self timedata w =
     (case map_of tbl w of
        None \<Rightarrow> Inl (LinAlgError ''singular matrix'')
      | Some (res, rgh) \<Rightarrow> Inr ((), res, rgh))"

definition sample_table :: "(npfloat \<times> npfloat \<times> npfloat) list" where
  "sample_table = [(Fin 1, Fin 1, Fin 100), (Fin 10, Fin 10, Fin 1), (Fin 100, Fin 100, Fin 1)]"

definition round_keep :: "npfloat list \<Rightarrow> nat \<Rightarrow> error + npfloat list" where
  "round_keep xs n = Inr xs"

definition derivatize_vec :: "npfloat list \<Rightarrow> npfloat list \<Rightarrow> error + npfloat list" where
  "derivatize_vec num denom = derivatize (NdArray (map PyFloat num)) (NdArray (map PyFloat denom))"

definition draw_unit ::
  "unit option \<Rightarrow> npfloat list \<Rightarrow> npfloat list \<Rightarrow> nat \<Rightarrow> npfloat \<Rightarrow> error + unit" where
  "draw_unit ax res rgh i om = Inr ()"

definition ones_A :: "pyval \<Rightarrow> pyval \<Rightarrow> pyval \<Rightarrow> pyval \<Rightarrow> error + pyval" where
  "ones_A Ea0 k0 t0 T0 =
     (case py_len t0 of Inl e \<Rightarrow> Inl e
      | Inr n \<Rightarrow>
     (case py_len Ea0 of Inl e \<Rightarrow> Inl e
      | Inr m \<Rightarrow> Inr (NdArray (replicate n (NdArray (replicate m (PyFloat (Fin 1))))))))"

section \<open>Properties of the constructors\<close>







declare assert_lent.simps [simp del]











text \<open>
  Claim C1. For a scalar \<open>T\<close>, int or float, \<open>Daem.__init__\<close> does not build a model:
  the warning is attempted through the name \<open>warnings\<close>, which \<open>model.py\<close> never imports,
  and the constructor ends with a \<open>NameError\<close>, whatever the other arguments are.
\<close>

theorem Daem_init_scalar_T_NameError:
  "Daem_init r a Ea0 k0 t0 (PyInt i) = Inl (NameError ''warnings'')
   \<and> Daem_init r a Ea0 k0 t0 (PyFloat x) = Inl (NameError ''warnings'')"
  by (simp add: Daem_init_def warnings_warn_def lookup_global_def model_globals_def)

section \<open>Properties of the alternate constructors and of the file check\<close>

text \<open>
  Claim C9. A data frame with a \<open>DatetimeIndex\<close> that has a column \<open>temp\<close> and no column
  \<open>CO2_scaled\<close> passes the column check of \<open>_rpo_extract_tg\<close>: the function never raises
  \<open>ValueError\<close> on it, and with a non-empty index it fails only later, with the
  \<open>AttributeError\<close> of reading \<open>file.CO2_scaled\<close>.
\<close>

theorem rpo_extract_tg_temp_only:
  assumes "df_index df = DatetimeIndex ts"
    and "''temp'' \<in> set (map fst (df_columns df))"
    and "''CO2_scaled'' \<notin> set (map fst (df_columns df))"
  shows "\<not> columns_missing df
       \<and> (\<forall>m. rpo_extract_tg rd ds (DataFrame df) nt0 err \<noteq> Inl (ValueError m))
       \<and> (ts \<noteq> [] \<longrightarrow> rpo_extract_tg rd ds (DataFrame df) nt0 err = Inl (AttributeError ''CO2_scaled''))"
proof -
  have nm: "\<not> columns_missing df"
    using assms(2) by (simp add: columns_missing_def str_truthy_def)
  have no: "map_of (df_columns df) ''CO2_scaled'' = None"
    using assms(3) by (simp add: map_of_eq_None_iff)
  show ?thesis
    using nm no assms(1)
    by (auto simp: rpo_extract_tg_def df_attr_def split: list.splits)
qed

theorem rpo_extract_tg_temp_only_witness:
  "rpo_extract_tg (\<lambda>p. Inl (ValueError ''no such file'')) (\<lambda>secs CO2 Temp n e. Inr ())
     (DataFrame \<lparr>df_columns = [(''temp'', [Fin 20, Fin 25])], df_index = DatetimeIndex [0, 1]\<rparr>)
     (PyInt 250) (PyInt 5) = Inl (AttributeError ''CO2_scaled'')"
  using rpo_extract_tg_temp_only[where
      df = "\<lparr>df_columns = [(''temp'', [Fin 20, Fin 25])], df_index = DatetimeIndex [0, 1]\<rparr>"
      and ts = "[0, 1]" and rd = "\<lambda>p. Inl (ValueError ''no such file'')"
      and ds = "\<lambda>secs CO2 Temp n e. Inr ()" and ?nt0.0 = "PyInt 250" and err = "PyInt 5"]
  by simp

text \<open>
  Claim C5, as amended. A \<open>ratedata\<close> object that is not an instance of \<open>EnergyComplex\<close>
  makes \<open>Daem.from_ratedata\<close> raise a \<open>TypeError\<close>, before anything else is read or
  built.
\<close>

theorem from_ratedata_rejects:
  "\<not> isinstance_of ratedata ''EnergyComplex'' \<Longrightarrow>
   from_ratedata r a ratedata beta k0 nt0 t00 T00 tf =
     Inl (TypeError ''Attempting to generate Daem model using a ratedata instance'')"
  by (simp add: from_ratedata_def)

theorem from_ratedata_rejects_witness:
  "from_ratedata ones_A assert_lent
     \<lparr>obj_classes = [''TimeData'', ''object''], obj_attrs = [(''t'', PyList [PyInt 0, PyInt 1])]\<rparr>
     (PyFloat (Fin (8 / 100))) (PyInt 10) (PyInt 250) (PyInt 0) (PyInt 373) (PyFloat (Fin 10000)) =
     Inl (TypeError ''Attempting to generate Daem model using a ratedata instance'')"
  using from_ratedata_rejects[where
      ratedata = "\<lparr>obj_classes = [''TimeData'', ''object''], obj_attrs = [(''t'', PyList [PyInt 0, PyInt 1])]\<rparr>"
      and r = ones_A and a = assert_lent]
  by (simp add: isinstance_of_def)

text \<open>
  Claim C5 as stated fails: a \<open>RateData\<close> instance that is not an \<open>EnergyComplex\<close> gets
  no warning and no model, only the \<open>TypeError\<close>.
\<close>

theorem from_ratedata_advisory_counterexample:
  "from_ratedata ones_A assert_lent
     \<lparr>obj_classes = [''RateData'', ''object''], obj_attrs = [(''Ea'', PyList [PyInt 50, PyInt 60])]\<rparr>
     (PyFloat (Fin (8 / 100))) (PyInt 10) (PyInt 250) (PyInt 0) (PyInt 373) (PyFloat (Fin 10000)) =
     Inl (TypeError ''Attempting to generate Daem model using a ratedata instance'')"
  by (simp add: from_ratedata_def isinstance_of_def)

section \<open>Properties of the L-curve sweep\<close>

lemma sweep_ok:
  "\<forall>w\<in>set ws. \<exists>y. cf w = Inr y \<Longrightarrow>
   sweep cf ws evs r g =
     (evs @ map CalcF ws,
      Inr (r @ map (\<lambda>w. fst (snd (projr (cf w)))) ws, g @ map (\<lambda>w. snd (snd (projr (cf w)))) ws))"
  by (induction ws arbitrary: evs r g) (auto split: sum.splits prod.splits)

lemma sweep_fail:
  "\<forall>w\<in>set pre. \<exists>y. cf w = Inr y \<Longrightarrow> cf w = Inl e \<Longrightarrow>
   sweep cf (pre @ w # post) evs r g = (evs @ map CalcF pre @ [CalcF w], Inl e)"
  by (induction pre arbitrary: evs r g) (auto split: sum.splits prod.splits)

lemma sweep_cases:
  "(\<forall>w\<in>set ws. \<exists>y. cf w = Inr y) \<or>
   (\<exists>pre w post e. ws = pre @ w # post \<and> (\<forall>w\<in>set pre. \<exists>y. cf w = Inr y) \<and> cf w = Inl e)"
proof (induction ws)
  case Nil then show ?case by simp
next
  case (Cons a ws)
  show ?case
  proof (cases "cf a")
    case (Inl e)
    then have "a # ws = [] @ a # ws \<and> (\<forall>w\<in>set []. \<exists>y. cf w = Inr y) \<and> cf a = Inl e" by simp
    then show ?thesis by blast
  next
    case (Inr y)
    from Cons.IH show ?thesis
    proof
      assume "\<forall>w\<in>set ws. \<exists>y. cf w = Inr y"
      with Inr show ?thesis by auto
    next
      assume "\<exists>pre w post e. ws = pre @ w # post \<and> (\<forall>w\<in>set pre. \<exists>y. cf w = Inr y) \<and> cf w = Inl e"
      then obtain pre w post e where "ws = pre @ w # post" "\<forall>w\<in>set pre. \<exists>y. cf w = Inr y" "cf w = Inl e"
        by blast
      with Inr have "a # ws = (a # pre) @ w # post \<and> (\<forall>w\<in>set (a # pre). \<exists>y. cf w = Inr y) \<and> cf w = Inl e"
        by auto
      then show ?thesis by blast
    qed
  qed
qed

lemma length_linspace_floats: "length (linspace_floats a b n) = n"
  by (auto simp: linspace_floats_def)

lemma om_vec_of_Inr:
  "om_vec_of nOm om_max om_min = Inr om_vec \<Longrightarrow>
   \<exists>n. nOm = PyInt (int n) \<and> length om_vec = n"
  by (auto simp: om_vec_of_def np_linspace_def length_linspace_floats split: sum.splits pyval.splits if_splits)

text \<open>
  Claim C7. When the inversion raises at sweep point \<open>j\<close>, after succeeding at the points
  before it, \<open>calc_L_curve\<close> ends with that very exception; \<open>_calc_f\<close> has then been called
  once for each omega up to \<open>j\<close>, in order, and for nothing else: no point is skipped,
  none is tried again, no other omega is tried.
\<close>

theorem calc_L_curve_error_propagates:
  assumes "is_int_or_float om_max" and "is_int_or_float om_min"
    and "om_vec_of nOm om_max om_min = Inr om_vec"
    and "j < length om_vec"
    and "\<forall>i<j. \<exists>y. cf self td (om_vec ! i) = Inr y"
    and "cf self td (om_vec ! j) = Inl e"
  shows "calc_L_curve cf rp dp dr self td ax nOm om_max om_min plot =
           (map CalcF (take (Suc j) om_vec), Inl e)"
proof -
  from om_vec_of_Inr[OF assms(3)] have int: "is_int nOm" by auto
  have split: "om_vec = take j om_vec @ om_vec ! j # drop (Suc j) om_vec"
    using assms(4) by (simp add: id_take_nth_drop)
  have pre: "\<forall>w\<in>set (take j om_vec). \<exists>y. cf self td w = Inr y"
    using assms(4,5) by (auto simp: in_set_conv_nth)
  have "sweep (cf self td) (take j om_vec @ om_vec ! j # drop (Suc j) om_vec) [] [] [] =
          ([] @ map CalcF (take j om_vec) @ [CalcF (om_vec ! j)], Inl e)"
    using pre assms(6) by (rule sweep_fail)
  with split have sw: "sweep (cf self td) om_vec [] [] [] = (map CalcF (take (Suc j) om_vec), Inl e)"
    using assms(4) by (simp add: take_Suc_conv_app_nth)
  show ?thesis
    using assms(1,2,3) int sw by (simp add: calc_L_curve_def)
qed

lemma log_10_100: "log 10 (100::real) = 2"
proof -
  have "(100::real) = 10 ^ 2" by simp
  then show ?thesis by (simp only: log_pow_cancel) 
qed

lemma om_vec_1_100: "om_vec_of (PyInt 3) (PyInt 100) (PyInt 1) = Inr [Fin 1, Fin 10, Fin 100]"
  by (simp add: om_vec_of_def np_linspace_def linspace_floats_def fsub_def log_10_100
      upt_conv_Cons numeral_3_eq_3 powr_numeral)

theorem calc_L_curve_error_propagates_witness:
  "calc_L_curve (calc_f_table [(Fin 1, Fin 1, Fin 100), (Fin 100, Fin 100, Fin 1)]) round_keep derivatize_vec draw_unit () () None
     (PyInt 3) (PyInt 100) (PyInt 1) False =
     ([CalcF (Fin 1), CalcF (Fin 10)], Inl (LinAlgError ''singular matrix''))"
  using calc_L_curve_error_propagates[where om_max = "PyInt 100" and om_min = "PyInt 1"
      and nOm = "PyInt 3" and om_vec = "[Fin 1, Fin 10, Fin 100]" and j = 1
      and cf = "calc_f_table [(Fin 1, Fin 1, Fin 100), (Fin 100, Fin 100, Fin 1)]" and self = "()" and td = "()"
      and e = "LinAlgError ''singular matrix''" and rp = round_keep and dp = derivatize_vec
      and dr = draw_unit and ax = None and plot = False]
  by (simp add: om_vec_1_100 calc_f_table_def numeral_2_eq_2)













section \<open>Properties of the corner search\<close>









lemma corner_Inr:
  assumes "corner rp dp res rgh = (evs, Inr (i, res6, rgh6))"
  shows "\<exists>dydx dy2d2x k. rp (map np_log10 res) 6 = Inr res6 \<and> rp (map np_log10 rgh) 6 = Inr rgh6
       \<and> dp rgh6 res6 = Inr dydx \<and> dp dydx res6 = Inr dy2d2x \<and> curvature dy2d2x dydx = Inr k
       \<and> np_argmax k = Inr i
       \<and> evs = [Round (map np_log10 res) 6, Round (map np_log10 rgh) 6, Deriv rgh6 res6, Deriv dydx res6]"
  using assms by (auto simp: corner_def Let_def split: sum.splits)

lemma corner_events:
  assumes "corner rp dp res rgh = (evs, r)"
  shows "(\<forall>w. CalcF w \<notin> set evs)
       \<and> (\<forall>xs p. Round xs p \<in> set evs \<longrightarrow> p = 6 \<and> (xs = map np_log10 res \<or> xs = map np_log10 rgh))
       \<and> (\<forall>a b. Deriv a b \<in> set evs \<longrightarrow>
            rp (map np_log10 res) 6 = Inr b
          \<and> (\<exists>rgh6. rp (map np_log10 rgh) 6 = Inr rgh6 \<and> (a = rgh6 \<or> dp rgh6 b = Inr a)))
       \<and> (\<exists>rest. evs = Round (map np_log10 res) 6 # rest)
       \<and> (\<forall>a b. Deriv a b \<in> set evs \<longrightarrow>
            (\<exists>rest. evs = Round (map np_log10 res) 6 # Round (map np_log10 rgh) 6 # rest
               \<and> (\<forall>xs p. Round xs p \<notin> set rest)))"
  using assms by (auto simp: corner_def Let_def split: sum.splits)

lemma sweep_Inr:
  assumes "sweep cf ws evs r g = (evs', Inr x)"
  shows "evs' = evs @ map CalcF ws \<and> (\<forall>w\<in>set ws. \<exists>y. cf w = Inr y)"
  using sweep_cases[of ws cf]
proof
  assume ok: "\<forall>w\<in>set ws. \<exists>y. cf w = Inr y"
  from sweep_ok[OF ok, of evs r g] assms show ?thesis using ok by simp
next
  assume "\<exists>pre w post e. ws = pre @ w # post \<and> (\<forall>w\<in>set pre. \<exists>y. cf w = Inr y) \<and> cf w = Inl e"
  then obtain pre w post e where "ws = pre @ w # post" "\<forall>w\<in>set pre. \<exists>y. cf w = Inr y" "cf w = Inl e"
    by blast
  with sweep_fail[of pre cf w e post evs r g] assms show ?thesis by simp
qed



text \<open>
  Claim C4. Once the sweep has produced the residual and roughness norms, the next thing
  \<open>calc_L_curve\<close> does is to round their base-10 logarithms: \<open>round_to_sigfig\<close> is called
  with precision 6 and with nothing but these two logged sequences; a call of \<open>derivatize\<close>
  comes after both roundings and receives their results (the rounded log-residual as the
  denominator); a run that returns has made exactly the two roundings and then the two
  derivatives.
\<close>

theorem calc_L_curve_rounds_logs:
  assumes "is_int_or_float om_max" and "is_int_or_float om_min"
    and "om_vec_of nOm om_max om_min = Inr om_vec"
    and "snd (sweep (cf self td) om_vec [] [] []) = Inr (res_vec, rgh_vec)"
  shows "(\<exists>rest. fst (calc_L_curve cf rp dp dr self td ax nOm om_max om_min plot) =
                  map CalcF om_vec @ Round (map np_log10 res_vec) 6 # rest)
       \<and> (\<forall>xs p. Round xs p \<in> set (fst (calc_L_curve cf rp dp dr self td ax nOm om_max om_min plot)) \<longrightarrow>
             p = 6 \<and> (xs = map np_log10 res_vec \<or> xs = map np_log10 rgh_vec))
       \<and> (\<forall>a b. Deriv a b \<in> set (fst (calc_L_curve cf rp dp dr self td ax nOm om_max om_min plot)) \<longrightarrow>
             rp (map np_log10 res_vec) 6 = Inr b
           \<and> (\<exists>rgh6. rp (map np_log10 rgh_vec) 6 = Inr rgh6 \<and> (a = rgh6 \<or> dp rgh6 b = Inr a))
           \<and> (\<exists>rest. fst (calc_L_curve cf rp dp dr self td ax nOm om_max om_min plot) =
                  map CalcF om_vec @ Round (map np_log10 res_vec) 6 # Round (map np_log10 rgh_vec) 6 # rest
                \<and> (\<forall>xs p. Round xs p \<notin> set rest)))
       \<and> (\<forall>r. snd (calc_L_curve cf rp dp dr self td ax nOm om_max om_min plot) = Inr r \<longrightarrow>
             (\<exists>res6 rgh6 dydx.
                rp (map np_log10 res_vec) 6 = Inr res6 \<and> rp (map np_log10 rgh_vec) 6 = Inr rgh6
              \<and> dp rgh6 res6 = Inr dydx
              \<and> fst (calc_L_curve cf rp dp dr self td ax nOm om_max om_min plot) =
                  map CalcF om_vec @ [Round (map np_log10 res_vec) 6, Round (map np_log10 rgh_vec) 6,
                                      Deriv rgh6 res6, Deriv dydx res6]))"
proof -
  obtain evs0 where sw: "sweep (cf self td) om_vec [] [] [] = (evs0, Inr (res_vec, rgh_vec))"
    using assms(4) by (cases "sweep (cf self td) om_vec [] [] []") auto
  from sweep_Inr[OF sw] have e0: "evs0 = map CalcF om_vec" by simp
  from om_vec_of_Inr[OF assms(3)] have int: "is_int nOm" by auto
  obtain evs' r' where co: "corner rp dp res_vec rgh_vec = (evs', r')"
    by (cases "corner rp dp res_vec rgh_vec")
  have run: "fst (calc_L_curve cf rp dp dr self td ax nOm om_max om_min plot) = map CalcF om_vec @ evs'"
    using assms(1-3) int sw e0 co by (auto simp: calc_L_curve_def split: sum.splits prod.splits)
  have ok: "\<forall>r. snd (calc_L_curve cf rp dp dr self td ax nOm om_max om_min plot) = Inr r \<longrightarrow>
      (\<exists>i res6 rgh6. r' = Inr (i, res6, rgh6))"
    using assms(1-3) int sw e0 co by (auto simp: calc_L_curve_def split: sum.splits prod.splits if_splits)
  note ce = corner_events[OF co]
  have 1: "\<exists>rest. fst (calc_L_curve cf rp dp dr self td ax nOm om_max om_min plot) =
                  map CalcF om_vec @ Round (map np_log10 res_vec) 6 # rest"
    using ce run by auto
  have 2: "\<forall>xs p. Round xs p \<in> set (fst (calc_L_curve cf rp dp dr self td ax nOm om_max om_min plot)) \<longrightarrow>
             p = 6 \<and> (xs = map np_log10 res_vec \<or> xs = map np_log10 rgh_vec)"
    using ce run by auto
  have 3: "\<forall>a b. Deriv a b \<in> set (fst (calc_L_curve cf rp dp dr self td ax nOm om_max om_min plot)) \<longrightarrow>
             rp (map np_log10 res_vec) 6 = Inr b
           \<and> (\<exists>rgh6. rp (map np_log10 rgh_vec) 6 = Inr rgh6 \<and> (a = rgh6 \<or> dp rgh6 b = Inr a))
           \<and> (\<exists>rest. fst (calc_L_curve cf rp dp dr self td ax nOm om_max om_min plot) =
                  map CalcF om_vec @ Round (map np_log10 res_vec) 6 # Round (map np_log10 rgh_vec) 6 # rest
                \<and> (\<forall>xs p. Round xs p \<notin> set rest))"
  proof (intro allI impI)
    fix a b assume "Deriv a b \<in> set (fst (calc_L_curve cf rp dp dr self td ax nOm om_max om_min plot))"
    with run have d: "Deriv a b \<in> set evs'" by auto
    with ce have "rp (map np_log10 res_vec) 6 = Inr b"
      "\<exists>rgh6. rp (map np_log10 rgh_vec) 6 = Inr rgh6 \<and> (a = rgh6 \<or> dp rgh6 b = Inr a)"
      "\<exists>rest. evs' = Round (map np_log10 res_vec) 6 # Round (map np_log10 rgh_vec) 6 # rest
               \<and> (\<forall>xs p. Round xs p \<notin> set rest)"
      by blast+
    with run show "rp (map np_log10 res_vec) 6 = Inr b
           \<and> (\<exists>rgh6. rp (map np_log10 rgh_vec) 6 = Inr rgh6 \<and> (a = rgh6 \<or> dp rgh6 b = Inr a))
           \<and> (\<exists>rest. fst (calc_L_curve cf rp dp dr self td ax nOm om_max om_min plot) =
                  map CalcF om_vec @ Round (map np_log10 res_vec) 6 # Round (map np_log10 rgh_vec) 6 # rest
                \<and> (\<forall>xs p. Round xs p \<notin> set rest))"
      by auto
  qed
  have 4: "\<forall>r. snd (calc_L_curve cf rp dp dr self td ax nOm om_max om_min plot) = Inr r \<longrightarrow>
             (\<exists>res6 rgh6 dydx.
                rp (map np_log10 res_vec) 6 = Inr res6 \<and> rp (map np_log10 rgh_vec) 6 = Inr rgh6
              \<and> dp rgh6 res6 = Inr dydx
              \<and> fst (calc_L_curve cf rp dp dr self td ax nOm om_max om_min plot) =
                  map CalcF om_vec @ [Round (map np_log10 res_vec) 6, Round (map np_log10 rgh_vec) 6,
                                      Deriv rgh6 res6, Deriv dydx res6])"
  proof (intro allI impI)
    fix r assume "snd (calc_L_curve cf rp dp dr self td ax nOm om_max om_min plot) = Inr r"
    with ok obtain i res6 rgh6 where "r' = Inr (i, res6, rgh6)" by blast
    with co have "corner rp dp res_vec rgh_vec = (evs', Inr (i, res6, rgh6))" by simp
    from corner_Inr[OF this] run
    show "\<exists>res6 rgh6 dydx.
                rp (map np_log10 res_vec) 6 = Inr res6 \<and> rp (map np_log10 rgh_vec) 6 = Inr rgh6
              \<and> dp rgh6 res6 = Inr dydx
              \<and> fst (calc_L_curve cf rp dp dr self td ax nOm om_max om_min plot) =
                  map CalcF om_vec @ [Round (map np_log10 res_vec) 6, Round (map np_log10 rgh_vec) 6,
                                      Deriv rgh6 res6, Deriv dydx res6]"
      by auto
  qed
  from 1 2 3 4 show ?thesis by blast
qed

section \<open>A sample run of the L-curve\<close>

lemma sample_sweep:
  "sweep (calc_f_table sample_table () ()) [Fin 1, Fin 10, Fin 100] [] [] [] =
     ([CalcF (Fin 1), CalcF (Fin 10), CalcF (Fin 100)],
      Inr ([Fin 1, Fin 10, Fin 100], [Fin 100, Fin 1, Fin 1]))"
  by (simp add: calc_f_table_def sample_table_def)

lemma sample_dydx:
  "derivatize_vec [Fin 2, Fin 0, Fin 0] [Fin 0, Fin 1, Fin 2] = Inr [Fin (- 2), Fin (- 1), Fin 0]"
  by (simp add: derivatize_vec_def derivatize_def np_gradient_def py_any_def fsub_def
      upt_conv_Cons numeral_3_eq_3 numeral_2_eq_2)

lemma sample_dy2d2x:
  "derivatize_vec [Fin (- 2), Fin (- 1), Fin 0] [Fin 0, Fin 1, Fin 2] = Inr [Fin 1, Fin 1, Fin 1]"
  by (simp add: derivatize_vec_def derivatize_def np_gradient_def py_any_def fsub_def
      upt_conv_Cons numeral_3_eq_3 numeral_2_eq_2)

lemma sample_curvature:
  "curvature [Fin 1, Fin 1, Fin 1] [Fin (- 2), Fin (- 1), Fin 0] =
     Inr [Fin (1 / 5 powr (3 / 2)), Fin (1 / 2 powr (3 / 2)), Fin 1]"
  by (simp add: curvature_def np_broadcast2_def fsquare_def)

lemma sample_argmax:
  "np_argmax [Fin (1 / 5 powr (3 / 2)), Fin (1 / 2 powr (3 / 2)), Fin 1] = Inr 2"
proof -
  have a: "(2::real) powr (3 / 2) < 5 powr (3 / 2)" by (rule powr_less_mono2) simp_all
  have b: "(1::real) < 2 powr (3 / 2)" by (rule gr_one_powr) simp_all
  have c: "\<not> (1 / 2 powr (3 / 2) \<le> 1 / (5::real) powr (3 / 2))"
    using a by (simp add: field_simps)
  have d: "\<not> (1 \<le> 1 / (2::real) powr (3 / 2))"
    unfolding le_divide_eq_1 using b by linarith
  have b': "\<not> ((2::real) powr (3 / 2) \<le> 1)" using b by linarith
  show ?thesis using c d b' by simp
qed

lemma sample_corner:
  "corner round_keep derivatize_vec [Fin 1, Fin 10, Fin 100] [Fin 100, Fin 1, Fin 1] =
     ([Round [Fin 0, Fin 1, Fin 2] 6, Round [Fin 2, Fin 0, Fin 0] 6,
       Deriv [Fin 2, Fin 0, Fin 0] [Fin 0, Fin 1, Fin 2],
       Deriv [Fin (- 2), Fin (- 1), Fin 0] [Fin 0, Fin 1, Fin 2]],
      Inr (2, [Fin 0, Fin 1, Fin 2], [Fin 2, Fin 0, Fin 0]))"
  by (simp add: corner_def Let_def round_keep_def log_10_100 sample_dydx sample_dy2d2x sample_curvature
      sample_argmax del: np_argmax.simps argmax_loop.simps)

lemma sample_run:
  "calc_L_curve (calc_f_table sample_table) round_keep derivatize_vec draw_unit () () None
     (PyInt 3) (PyInt 100) (PyInt 1) False =
     ([CalcF (Fin 1), CalcF (Fin 10), CalcF (Fin 100),
       Round [Fin 0, Fin 1, Fin 2] 6, Round [Fin 2, Fin 0, Fin 0] 6,
       Deriv [Fin 2, Fin 0, Fin 0] [Fin 0, Fin 1, Fin 2],
       Deriv [Fin (- 2), Fin (- 1), Fin 0] [Fin 0, Fin 1, Fin 2]],
      Inr (OmBest (Fin 100)))"
  by (simp add: calc_L_curve_def om_vec_1_100 sample_sweep sample_corner del: sweep.simps)





theorem calc_L_curve_rounds_logs_witness:
  "fst (calc_L_curve (calc_f_table sample_table) round_keep derivatize_vec draw_unit () () None
      (PyInt 3) (PyInt 100) (PyInt 1) False) =
     [CalcF (Fin 1), CalcF (Fin 10), CalcF (Fin 100),
      Round [Fin 0, Fin 1, Fin 2] 6, Round [Fin 2, Fin 0, Fin 0] 6,
      Deriv [Fin 2, Fin 0, Fin 0] [Fin 0, Fin 1, Fin 2],
      Deriv [Fin (- 2), Fin (- 1), Fin 0] [Fin 0, Fin 1, Fin 2]]"
proof -
  have s: "snd (sweep (calc_f_table sample_table () ()) [Fin 1, Fin 10, Fin 100] [] [] []) =
             Inr ([Fin 1, Fin 10, Fin 100], [Fin 100, Fin 1, Fin 1])"
    by (simp add: sample_sweep del: sweep.simps)
  have r: "snd (calc_L_curve (calc_f_table sample_table) round_keep derivatize_vec draw_unit () () None
      (PyInt 3) (PyInt 100) (PyInt 1) False) = Inr (OmBest (Fin 100))"
    by (simp add: sample_run)
  have t1: "is_int_or_float (PyInt 100)" and t2: "is_int_or_float (PyInt 1)" by simp_all
  note th = calc_L_curve_rounds_logs[where cf = "calc_f_table sample_table" and self = "()" and td = "()"
      and rp = round_keep and dp = derivatize_vec
      and dr = draw_unit and ax = None and plot = False, OF t1 t2 om_vec_1_100 s]
  note th4 = th[THEN conjunct2, THEN conjunct2, THEN conjunct2, rule_format, OF r]
  from th4 obtain res6 rgh6 dydx where
    a: "round_keep (map np_log10 [Fin 1, Fin 10, Fin 100]) 6 = Inr res6"
    and b: "round_keep (map np_log10 [Fin 100, Fin 1, Fin 1]) 6 = Inr rgh6"
    and c: "derivatize_vec rgh6 res6 = Inr dydx"
    and d: "fst (calc_L_curve (calc_f_table sample_table) round_keep derivatize_vec draw_unit () () None
              (PyInt 3) (PyInt 100) (PyInt 1) False) =
            map CalcF [Fin 1, Fin 10, Fin 100] @
              [Round (map np_log10 [Fin 1, Fin 10, Fin 100]) 6,
               Round (map np_log10 [Fin 100, Fin 1, Fin 1]) 6, Deriv rgh6 res6, Deriv dydx res6]"
    by blast
  from a have res6: "res6 = [Fin 0, Fin 1, Fin 2]" by (simp add: round_keep_def log_10_100)
  from b have rgh6: "rgh6 = [Fin 2, Fin 0, Fin 0]" by (simp add: round_keep_def log_10_100)
  from c res6 rgh6 have "dydx = [Fin (- 2), Fin (- 1), Fin 0]" by (simp add: sample_dydx)
  with d res6 rgh6 show ?thesis by (simp add: log_10_100)
qed

section \<open>Properties of \<open>_derivatize\<close>\<close>


lemma np_gradient_short:
  "length xs < 2 \<Longrightarrow> np_gradient xs = Inl (ValueError ''Shape of array too small to calculate a numerical gradient'')"
  by (simp add: np_gradient_def Let_def)









end
